theory Spec2Isabelle
  imports Complex_Main "HOL-Library.AList"
begin

section \<open>The grid-trading decision engine of strategy.py\<close>

text \<open>
  A shallow embedding of \<^verbatim>\<open>GridStrategy\<close>. Python floats are modelled by the real
  numbers: every arithmetic result below is the exact one, so rounding error, infinities
  and NaN are outside the model. Dictionaries are association lists in insertion order
  (\<open>AList.update\<close> replaces in place or appends, as a Python dict does), the object's
  fields are a record passed in and returned, exceptions are the left summand of a sum,
  and the text written by \<^verbatim>\<open>print\<close> and the messages of an action batch are values
  of datatypes that carry the numbers the f-strings render. An exception ends the call
  and the model keeps no state for it. The fields of \<^verbatim>\<open>Order\<close> and
  \<^verbatim>\<open>Position\<close> carry the prefixes \<open>o_\<close> and \<open>p_\<close>, those of the status dictionary
  \<open>st_\<close>; \<open>init\<close> is \<^verbatim>\<open>__init__\<close> and the two fill handlers drop their leading
  underscore.
\<close>

subsection \<open>Data model\<close>

datatype OrderType = BUY | SELL

datatype OrderStatus = NEW | FILLED | CANCELED

record Order =
  o_id :: string
  o_symbol :: string
  o_side :: OrderType
  o_price :: real
  o_quantity :: real
  o_status :: OrderStatus
  o_level_key :: "string option"

record Position =
  p_level_price :: real
  p_quantity :: real
  p_buy_price :: real
  p_tp_price :: "real option"
  p_tp_order_id :: "string option"

text \<open>The JSON configuration, read once by the constructor; one field per key used.\<close>

record config =
  quote_start :: real
  base_start_quote :: real
  target_inventory_ratio :: real
  compound :: bool
  tick_size :: real
  qty_step :: real
  mode :: string
  step_percent :: real
  atr_window :: int
  atr_k :: real
  levels_below :: int
  levels_above :: int
  sizing_mode :: string
  skew_strength :: real
  maker_buffer_frac :: real
  min_notional :: real
  tp_mode :: string
  tp_percent :: real
  dd_pause_frac :: real
  kill_switch_frac :: real
  symbol :: string

record state =
  cash :: real
  base_holdings :: real
  active_orders :: "(string \<times> Order) list"
  positions :: "(string \<times> Position) list"
  total_pnl :: real
  realized_pnl :: real
  max_equity :: real
  max_drawdown :: real
  price_history :: "real list"

datatype error = ZeroDivisionError | IndexError

text \<open>The messages of an action batch, by the f-string that renders them.\<close>

datatype message =
    PauseMsg real real
  | StopMsg real
  | PlacedBuyMsg real real

record actions =
  place_orders :: "Order list"
  cancel_orders :: "string list"
  messages :: "message list"

text \<open>What \<^verbatim>\<open>print\<close> writes, by the f-string that renders it.\<close>

datatype log =
    UnknownOrderLog string
  | BuyFilledLog real real real
  | BalanceLog real real
  | TpFilledLog real real real
  | RealizedLog real

text \<open>The reasons \<^verbatim>\<open>can_place_buy\<close> returns.\<close>

datatype reason =
    LevelOccupied string
  | DuplicateBuy real
  | BelowMinNotional real real
  | InsufficientCash real real
  | OK

record status =
  st_cash :: real
  st_base_holdings :: real
  st_equity :: real
  st_realized_pnl :: real
  st_total_pnl :: real
  st_max_equity :: real
  st_drawdown :: real
  st_active_orders :: nat
  st_positions :: nat
  st_config :: config

subsection \<open>Python primitives\<close>

text \<open>\<^verbatim>\<open>round(x)\<close> with one argument: the nearest integer, a tie going to the even one.\<close>

definition py_round :: "real \<Rightarrow> int" where
  "py_round x =
     (let f = \<lfloor>x\<rfloor>; d = x - of_int f
      in if d < 1 / 2 then f
         else if 1 / 2 < d then f + 1
         else if even f then f else f + 1)"

text \<open>The decimal digits of an integer that is not negative, most significant first.\<close>

function digits :: "int \<Rightarrow> string" where
  "digits n =
     (if n < 10 then [''0123456789'' ! nat n]
      else digits (n div 10) @ [''0123456789'' ! nat (n mod 10)])"
  by pat_completeness auto
termination
  by (relation "measure nat") auto

declare digits.simps [simp del]

text \<open>
  \<^verbatim>\<open>f"{x:.df}"\<close> for \<open>d > 0\<close>: the magnitude rounded to \<open>d\<close> decimals, ties to
  even, the sign kept for every negative \<open>x\<close>, the fraction padded with zeros.
\<close>

definition fmt_fixed :: "nat \<Rightarrow> real \<Rightarrow> string" where
  "fmt_fixed d x =
     (let n = py_round (\<bar>x\<bar> * 10 ^ d);
          frac = digits (n mod 10 ^ d)
      in (if x < 0 then ''-'' else '''') @ digits (n div 10 ^ d) @ ''.'' @
         replicate (d - length frac) CHR ''0'' @ frac)"

text \<open>\<^verbatim>\<open>xs[-w:]\<close>: the last \<open>w\<close> elements when \<open>w > 0\<close>; for \<open>w \<le> 0\<close> the index
  \<open>-w\<close> is not negative and counts from the front.\<close>

definition py_suffix :: "int \<Rightarrow> 'a list \<Rightarrow> 'a list" where
  "py_suffix w xs =
     (if 0 < w then drop (length xs - nat w) xs else drop (nat (- w)) xs)"

text \<open>\<^verbatim>\<open>np.mean\<close> of a non-empty list.\<close>

definition mean :: "real list \<Rightarrow> real" where
  "mean xs = sum_list xs / real (length xs)"

subsection \<open>Construction and normalisation\<close>

definition init :: "config \<Rightarrow> state" where
  "init cfg =
     \<lparr>cash = quote_start cfg,
      base_holdings = base_start_quote cfg / 45000,
      active_orders = [],
      positions = [],
      total_pnl = 0,
      realized_pnl = 0,
      max_equity = quote_start cfg,
      max_drawdown = 0,
      price_history = []\<rparr>"

definition normalize_price :: "config \<Rightarrow> real \<Rightarrow> error + real" where
  "normalize_price cfg price =
     (if tick_size cfg = 0 then Inl ZeroDivisionError
      else Inr (of_int (py_round (price / tick_size cfg)) * tick_size cfg))"

definition normalize_quantity :: "config \<Rightarrow> real \<Rightarrow> error + real" where
  "normalize_quantity cfg qty =
     (if qty_step cfg = 0 then Inl ZeroDivisionError
      else Inr (of_int (py_round (qty / qty_step cfg)) * qty_step cfg))"

subsection \<open>Grid step\<close>

text \<open>The absolute differences of consecutive prices:
  \<^verbatim>\<open>[abs(p[0] - p[1]) for p in zip(recent[1:], recent[:-1])]\<close>.\<close>

definition high_low :: "real list \<Rightarrow> real list" where
  "high_low recent = map (\<lambda>(a, b). \<bar>a - b\<bar>) (zip (tl recent) (butlast recent))"

definition get_grid_step :: "config \<Rightarrow> state \<Rightarrow> real \<Rightarrow> real" where
  "get_grid_step cfg s current_price =
     (if mode cfg = ''percent'' then current_price * step_percent cfg
      else if int (length (price_history s)) < atr_window cfg
      then current_price * (4 / 1000)
      else
        (let recent_prices = py_suffix (atr_window cfg) (price_history s);
             hl = high_low recent_prices;
             atr = (if hl \<noteq> [] then mean hl else current_price * (4 / 1000))
         in atr * atr_k cfg))"

subsection \<open>Position sizing\<close>

definition calculate_position_size ::
  "config \<Rightarrow> state \<Rightarrow> nat \<Rightarrow> real \<Rightarrow> error + real" where
  "calculate_position_size cfg s level_index current_price =
     (let available_cash = cash s * (9 / 10);
          size_per_level =
            (if sizing_mode cfg = ''linear''
             then (if levels_below cfg = 0 then Inl ZeroDivisionError
                   else Inr (available_cash / of_int (levels_below cfg)))
             else
               (let weights = map (\<lambda>i. (6 / 5) ^ i) [0..<nat (levels_below cfg)];
                    total_weight = sum_list weights
                in if total_weight = 0 then Inl ZeroDivisionError
                   else if length weights \<le> level_index then Inl IndexError
                   else Inr ((available_cash / total_weight) * weights ! level_index)))
      in case size_per_level of
           Inl e \<Rightarrow> Inl e
         | Inr size_per_level \<Rightarrow>
             (let current_equity = cash s + base_holdings s * current_price
              in if current_equity = 0 then Inl ZeroDivisionError
                 else
                   (let inventory_ratio = (base_holdings s * current_price) / current_equity;
                        target_ratio = target_inventory_ratio cfg
                    in if inventory_ratio < target_ratio
                       then Inr (size_per_level *
                                 (1 + (target_ratio - inventory_ratio) * skew_strength cfg))
                       else Inr size_per_level)))"

subsection \<open>Order admission\<close>

text \<open>The loop over \<^verbatim>\<open>active_orders.values()\<close>: is there an active BUY order whose
  price is less than one tick from the normalised order price?\<close>

definition buy_order_near :: "config \<Rightarrow> state \<Rightarrow> real \<Rightarrow> bool" where
  "buy_order_near cfg s order_price_norm =
     list_ex (\<lambda>(k, order). o_side order = BUY \<and>
                \<bar>o_price order - order_price_norm\<bar> < tick_size cfg)
       (active_orders s)"

definition can_place_buy ::
  "config \<Rightarrow> state \<Rightarrow> real \<Rightarrow> real \<Rightarrow> error + (bool \<times> reason)" where
  "can_place_buy cfg s level_price current_price =
     (case normalize_price cfg level_price of
        Inl e \<Rightarrow> Inl e
      | Inr nl \<Rightarrow>
     (let level_key = fmt_fixed 8 nl
      in if map_of (positions s) level_key \<noteq> None
         then Inr (False, LevelOccupied level_key)
         else
     (case normalize_price cfg (level_price * (1 - maker_buffer_frac cfg)) of
        Inl e \<Rightarrow> Inl e
      | Inr order_price_norm \<Rightarrow>
         if buy_order_near cfg s order_price_norm
         then Inr (False, DuplicateBuy order_price_norm)
         else
     (case calculate_position_size cfg s 0 current_price of
        Inl e \<Rightarrow> Inl e
      | Inr position_size \<Rightarrow>
         if order_price_norm = 0 then Inl ZeroDivisionError
         else
     (case normalize_quantity cfg (position_size / order_price_norm) of
        Inl e \<Rightarrow> Inl e
      | Inr quantity \<Rightarrow>
         if quantity * order_price_norm < min_notional cfg
         then Inr (False, BelowMinNotional (quantity * order_price_norm) (min_notional cfg))
         else if cash s < position_size
         then Inr (False, InsufficientCash position_size (cash s))
         else Inr (True, OK))))))"

subsection \<open>Target levels\<close>

definition get_target_levels :: "config \<Rightarrow> state \<Rightarrow> real \<Rightarrow> real list" where
  "get_target_levels cfg s current_price =
     (let step = get_grid_step cfg s current_price
      in map (\<lambda>i. current_price - of_int i * step) [1..levels_below cfg] @
         map (\<lambda>i. current_price + of_int i * step) [1..levels_above cfg])"

subsection \<open>The step of the strategy\<close>

text \<open>The body of \<^verbatim>\<open>for i, level in enumerate(target_levels)\<close>; the state and the
  action batch are threaded through, and an exception ends the loop.\<close>

fun place_buys ::
  "config \<Rightarrow> real \<Rightarrow> (nat \<times> real) list \<Rightarrow> state \<Rightarrow> actions \<Rightarrow> error + (state \<times> actions)"
  where
  "place_buys cfg current_price [] s acts = Inr (s, acts)"
| "place_buys cfg current_price ((i, level) # rest) s acts =
     (if current_price \<le> level then place_buys cfg current_price rest s acts
      else
        (case can_place_buy cfg s level current_price of
           Inl e \<Rightarrow> Inl e
         | Inr (can_place, why) \<Rightarrow>
             if \<not> can_place then place_buys cfg current_price rest s acts
             else
        (case normalize_price cfg (level * (1 - maker_buffer_frac cfg)) of
           Inl e \<Rightarrow> Inl e
         | Inr order_price \<Rightarrow>
        (case calculate_position_size cfg s i current_price of
           Inl e \<Rightarrow> Inl e
         | Inr position_size \<Rightarrow>
             if order_price = 0 then Inl ZeroDivisionError
             else
        (case normalize_quantity cfg (position_size / order_price) of
           Inl e \<Rightarrow> Inl e
         | Inr quantity \<Rightarrow>
        (case normalize_price cfg level of
           Inl e \<Rightarrow> Inl e
         | Inr nl \<Rightarrow>
             (let order_id = ''BUY_'' @ fmt_fixed 2 level @ ''_'' @
                             digits (int (length (active_orders s)));
                  order = \<lparr>o_id = order_id, o_symbol = symbol cfg, o_side = BUY,
                           o_price = order_price, o_quantity = quantity,
                           o_status = NEW, o_level_key = Some (fmt_fixed 8 nl)\<rparr>
              in place_buys cfg current_price rest
                   (s\<lparr>active_orders := AList.update order_id order (active_orders s)\<rparr>)
                   (acts\<lparr>place_orders := place_orders acts @ [order],
                         messages := messages acts @
                                     [PlacedBuyMsg quantity order_price]\<rparr>))))))))"

definition step_book ::
  "config \<Rightarrow> state \<Rightarrow> real \<Rightarrow> real \<Rightarrow> real \<Rightarrow> error + (state \<times> actions)" where
  "step_book cfg s current_price bid ask =
     (let acts = \<lparr>place_orders = [], cancel_orders = [], messages = []\<rparr>;
          h = price_history s @ [current_price];
          s1 = s\<lparr>price_history :=
                   (if atr_window cfg * 2 < int (length h)
                    then py_suffix (atr_window cfg) h else h)\<rparr>;
          current_equity = cash s1 + base_holdings s1 * current_price
      in if max_equity s1 = 0 then Inl ZeroDivisionError
         else
           (let drawdown = (max_equity s1 - current_equity) / max_equity s1
            in if dd_pause_frac cfg < drawdown
               then Inr (s1, acts\<lparr>messages := messages acts @
                                     [PauseMsg drawdown (dd_pause_frac cfg)]\<rparr>)
               else if kill_switch_frac cfg < drawdown
               then Inr (s1, acts\<lparr>messages := messages acts @ [StopMsg drawdown]\<rparr>)
               else
                 (let s2 = (if max_equity s1 < current_equity
                            then s1\<lparr>max_equity := current_equity\<rparr> else s1);
                      target_levels = get_target_levels cfg s2 current_price
                  in place_buys cfg current_price
                       (zip [0..<length target_levels] target_levels) s2 acts)))"

subsection \<open>Fills\<close>

text \<open>\<^verbatim>\<open>order.level_key or f"{fill_price:.8f}"\<close>: the order's level key unless it is
  \<^verbatim>\<open>None\<close> or empty.\<close>

definition fill_level_key :: "Order \<Rightarrow> real \<Rightarrow> string" where
  "fill_level_key order fill_price =
     (case o_level_key order of
        None \<Rightarrow> fmt_fixed 8 fill_price
      | Some k \<Rightarrow> if k = [] then fmt_fixed 8 fill_price else k)"

definition handle_buy_fill ::
  "config \<Rightarrow> state \<Rightarrow> Order \<Rightarrow> real \<Rightarrow> real \<Rightarrow> error + (state \<times> log list)" where
  "handle_buy_fill cfg s order fill_price fill_quantity =
     (let cost = fill_price * fill_quantity;
          s1 = s\<lparr>cash := cash s - cost,
                 base_holdings := base_holdings s + fill_quantity\<rparr>;
          level_key = fill_level_key order fill_price;
          tp_price = (if tp_mode cfg = ''step''
                      then fill_price + get_grid_step cfg s1 fill_price
                      else fill_price * (1 + tp_percent cfg))
      in case normalize_price cfg tp_price of
           Inl e \<Rightarrow> Inl e
         | Inr tp \<Rightarrow>
             (let position = \<lparr>p_level_price = fill_price, p_quantity = fill_quantity,
                              p_buy_price = fill_price, p_tp_price = Some tp,
                              p_tp_order_id = None\<rparr>;
                  s2 = s1\<lparr>positions := AList.update level_key position (positions s1)\<rparr>
              in Inr (s2, [BuyFilledLog fill_quantity fill_price tp,
                           BalanceLog (cash s2) (base_holdings s2)])))"

text \<open>The search loop of \<^verbatim>\<open>_handle_sell_fill\<close>: the key of the first position, in
  dictionary order, whose take-profit order id is the order's.\<close>

fun find_position_key :: "string \<Rightarrow> (string \<times> Position) list \<Rightarrow> string option" where
  "find_position_key oid [] = None"
| "find_position_key oid ((key, pos) # rest) =
     (if p_tp_order_id pos = Some oid then Some key else find_position_key oid rest)"

definition handle_sell_fill ::
  "config \<Rightarrow> state \<Rightarrow> Order \<Rightarrow> real \<Rightarrow> real \<Rightarrow> state \<times> log list" where
  "handle_sell_fill cfg s order fill_price fill_quantity =
     (case find_position_key (o_id order) (positions s) of
        None \<Rightarrow> (s, [])
      | Some position_key \<Rightarrow>
          if position_key = [] then (s, [])
          else
            (case map_of (positions s) position_key of
               None \<Rightarrow> (s, [])
             | Some position \<Rightarrow>
                 (let profit = (fill_price - p_buy_price position) * fill_quantity;
                      s1 = s\<lparr>realized_pnl := realized_pnl s + profit,
                             total_pnl := total_pnl s + profit\<rparr>;
                      s2 = (if compound cfg
                            then s1\<lparr>cash := cash s1 + fill_price * fill_quantity\<rparr>
                            else s1);
                      s3 = s2\<lparr>base_holdings := base_holdings s2 - fill_quantity,
                              positions := AList.delete position_key (positions s2)\<rparr>
                  in (s3, [TpFilledLog fill_quantity fill_price profit,
                           RealizedLog (realized_pnl s3)]))))"

definition on_order_filled ::
  "config \<Rightarrow> state \<Rightarrow> string \<Rightarrow> real \<Rightarrow> real \<Rightarrow> error + (state \<times> log list)" where
  "on_order_filled cfg s order_id fill_price fill_quantity =
     (case map_of (active_orders s) order_id of
        None \<Rightarrow> Inr (s, [UnknownOrderLog order_id])
      | Some order0 \<Rightarrow>
          (let order = order0\<lparr>o_status := FILLED\<rparr>;
               handled = (if o_side order = BUY
                          then handle_buy_fill cfg s order fill_price fill_quantity
                          else Inr (handle_sell_fill cfg s order fill_price fill_quantity))
           in case handled of
                Inl e \<Rightarrow> Inl e
              | Inr (s1, out) \<Rightarrow>
                  Inr (s1\<lparr>active_orders := AList.delete order_id (active_orders s1)\<rparr>,
                       out)))"

subsection \<open>Status\<close>

definition get_status :: "config \<Rightarrow> state \<Rightarrow> error + status" where
  "get_status cfg s =
     (let current_equity = cash s + base_holdings s * 45000
      in if max_equity s = 0 then Inl ZeroDivisionError
         else Inr \<lparr>st_cash = cash s,
                   st_base_holdings = base_holdings s,
                   st_equity = current_equity,
                   st_realized_pnl = realized_pnl s,
                   st_total_pnl = total_pnl s,
                   st_max_equity = max_equity s,
                   st_drawdown = (max_equity s - current_equity) / max_equity s,
                   st_active_orders = length (active_orders s),
                   st_positions = length (positions s),
                   st_config = cfg\<rparr>)"

subsection \<open>Sequences of calls\<close>

text \<open>A call of the driver: a tick \<^verbatim>\<open>step_book(price, bid, ask)\<close> or a fill
  \<^verbatim>\<open>on_order_filled(order_id, fill_price, fill_quantity)\<close>. A run applies the calls in
  order and ends at the first exception.\<close>

datatype call = Tick real real real | Fill string real real

definition apply_call :: "config \<Rightarrow> state \<Rightarrow> call \<Rightarrow> error + state" where
  "apply_call cfg s c =
     (case c of
        Tick p b a \<Rightarrow>
          (case step_book cfg s p b a of Inl e \<Rightarrow> Inl e | Inr (s', acts) \<Rightarrow> Inr s')
      | Fill oid fp fq \<Rightarrow>
          (case on_order_filled cfg s oid fp fq of Inl e \<Rightarrow> Inl e | Inr (s', out) \<Rightarrow> Inr s'))"

fun run :: "config \<Rightarrow> state \<Rightarrow> call list \<Rightarrow> error + state" where
  "run cfg s [] = Inr s"
| "run cfg s (c # cs) =
     (case apply_call cfg s c of Inl e \<Rightarrow> Inl e | Inr s' \<Rightarrow> run cfg s' cs)"

text \<open>A condition on every call of a sequence, read in the state the call is applied to.\<close>

fun each_call :: "(state \<Rightarrow> call \<Rightarrow> bool) \<Rightarrow> config \<Rightarrow> state \<Rightarrow> call list \<Rightarrow> bool" where
  "each_call ok cfg s [] = True"
| "each_call ok cfg s (c # cs) =
     (ok s c \<and>
      (case apply_call cfg s c of Inl e \<Rightarrow> True | Inr s' \<Rightarrow> each_call ok cfg s' cs))"

text \<open>A fill of a tracked order that arrives for a level key holding no position.\<close>

definition fill_on_free_level :: "state \<Rightarrow> call \<Rightarrow> bool" where
  "fill_on_free_level s c =
     (case c of
        Tick p b a \<Rightarrow> True
      | Fill oid fp fq \<Rightarrow>
          (case map_of (active_orders s) oid of
             None \<Rightarrow> True
           | Some order \<Rightarrow> map_of (positions s) (fill_level_key order fp) = None))"

text \<open>The sum of \<^verbatim>\<open>quantity\<close> over the open positions.\<close>

definition positions_quantity :: "state \<Rightarrow> real" where
  "positions_quantity s = sum_list (map (\<lambda>(k, pos). p_quantity pos) (positions s))"

subsection \<open>The grid step as the specification words it\<close>

text \<open>
  The specification's \<^verbatim>\<open>computeStep\<close>, kept apart from \<open>get_grid_step\<close> to compare the
  two: the percentage step in percent mode, the fixed fallback while fewer than
  \<open>window\<close> samples exist, and otherwise the mean absolute difference of consecutive
  prices among the last \<open>window\<close> samples, times \<open>atrK\<close>. A mean of no differences does
  not exist, which is \<open>None\<close>.
\<close>

definition spec_compute_step :: "config \<Rightarrow> real list \<Rightarrow> real \<Rightarrow> real option" where
  "spec_compute_step cfg history current_price =
     (if mode cfg = ''percent'' then Some (current_price * step_percent cfg)
      else if int (length history) < atr_window cfg then Some (current_price * (4 / 1000))
      else
        (let recent = drop (length history - nat (atr_window cfg)) history;
             n = length recent
         in if n < 2 then None
            else Some (sum_list (map (\<lambda>i. \<bar>recent ! (i + 1) - recent ! i\<bar>) [0..<n - 1])
                       / real (n - 1) * atr_k cfg)))"

subsection \<open>Configurations and states used as examples\<close>

text \<open>A percent-mode grid of two levels with a tick of 1, started with 1000 in cash.\<close>

definition demo_cfg :: config where
  "demo_cfg =
     \<lparr>quote_start = 1000, base_start_quote = 0, target_inventory_ratio = 1 / 2,
      compound = True, tick_size = 1, qty_step = 1 / 100, mode = ''percent'',
      step_percent = 5 / 1000, atr_window = 14, atr_k = 1, levels_below = 2,
      levels_above = 0, sizing_mode = ''linear'', skew_strength = 1,
      maker_buffer_frac = 5 / 1000, min_notional = 5, tp_mode = ''step'',
      tp_percent = 1 / 100, dd_pause_frac = 5 / 100, kill_switch_frac = 1 / 10,
      symbol = ''BTCUSDT''\<rparr>"

text \<open>The same grid started with base holdings worth 90000, that is 2 units.\<close>

definition held_cfg :: config where
  "held_cfg = demo_cfg\<lparr>base_start_quote := 90000\<rparr>"

text \<open>The same grid in ATR mode, with windows of 3 samples and of 1 sample.\<close>

definition atr_cfg :: config where
  "atr_cfg = demo_cfg\<lparr>mode := ''atr'', atr_window := 3, atr_k := 2\<rparr>"

definition atr1_cfg :: config where
  "atr1_cfg = demo_cfg\<lparr>mode := ''atr'', atr_window := 1, atr_k := 2\<rparr>"

text \<open>The two orders \<open>demo_cfg\<close> places on its first tick at 120, and the state then.\<close>

definition demo_buy1 :: Order where
  "demo_buy1 =
     \<lparr>o_id = ''BUY_119.40_0'', o_symbol = ''BTCUSDT'', o_side = BUY, o_price = 119,
      o_quantity = 567 / 100, o_status = NEW, o_level_key = Some ''119.00000000''\<rparr>"

definition demo_buy2 :: Order where
  "demo_buy2 =
     \<lparr>o_id = ''BUY_118.80_1'', o_symbol = ''BTCUSDT'', o_side = BUY, o_price = 118,
      o_quantity = 143 / 25, o_status = NEW, o_level_key = Some ''119.00000000''\<rparr>"

definition demo_tick1 :: state where
  "demo_tick1 =
     \<lparr>cash = 1000, base_holdings = 0,
      active_orders = [(''BUY_119.40_0'', demo_buy1), (''BUY_118.80_1'', demo_buy2)],
      positions = [], total_pnl = 0, realized_pnl = 0, max_equity = 1000,
      max_drawdown = 0, price_history = [120]\<rparr>"

text \<open>After the first order is filled at its price and quantity.\<close>

definition demo_pos1 :: Position where
  "demo_pos1 =
     \<lparr>p_level_price = 119, p_quantity = 567 / 100, p_buy_price = 119,
      p_tp_price = Some 120, p_tp_order_id = None\<rparr>"

definition demo_fill1 :: state where
  "demo_fill1 =
     \<lparr>cash = 32527 / 100, base_holdings = 567 / 100,
      active_orders = [(''BUY_118.80_1'', demo_buy2)],
      positions = [(''119.00000000'', demo_pos1)],
      total_pnl = 0, realized_pnl = 0, max_equity = 1000,
      max_drawdown = 0, price_history = [120]\<rparr>"

text \<open>After both orders are filled at their prices and quantities.\<close>

definition demo_fill2 :: state where
  "demo_fill2 =
     \<lparr>cash = - (34969 / 100), base_holdings = 1139 / 100,
      active_orders = [],
      positions = [(''119.00000000'',
                    \<lparr>p_level_price = 118, p_quantity = 143 / 25, p_buy_price = 118,
                     p_tp_price = Some 119, p_tp_order_id = None\<rparr>)],
      total_pnl = 0, realized_pnl = 0, max_equity = 1000,
      max_drawdown = 0, price_history = [120]\<rparr>"

text \<open>The two orders \<open>held_cfg\<close> places on its first tick at 120, the state then, and the
  state after the first order is filled.\<close>

definition held_buy1 :: Order where
  "held_buy1 =
     \<lparr>o_id = ''BUY_119.40_0'', o_symbol = ''BTCUSDT'', o_side = BUY, o_price = 119,
      o_quantity = 247 / 50, o_status = NEW, o_level_key = Some ''119.00000000''\<rparr>"

definition held_buy2 :: Order where
  "held_buy2 =
     \<lparr>o_id = ''BUY_118.80_1'', o_symbol = ''BTCUSDT'', o_side = BUY, o_price = 118,
      o_quantity = 249 / 50, o_status = NEW, o_level_key = Some ''119.00000000''\<rparr>"

definition held_tick1 :: state where
  "held_tick1 =
     \<lparr>cash = 1000, base_holdings = 2,
      active_orders = [(''BUY_119.40_0'', held_buy1), (''BUY_118.80_1'', held_buy2)],
      positions = [], total_pnl = 0, realized_pnl = 0, max_equity = 1240,
      max_drawdown = 0, price_history = [120]\<rparr>"

definition held_fill1 :: state where
  "held_fill1 =
     \<lparr>cash = 20607 / 50, base_holdings = 347 / 50,
      active_orders = [(''BUY_118.80_1'', held_buy2)],
      positions = [(''119.00000000'',
                    \<lparr>p_level_price = 119, p_quantity = 247 / 50, p_buy_price = 119,
                     p_tp_price = Some 120, p_tp_order_id = None\<rparr>)],
      total_pnl = 0, realized_pnl = 0, max_equity = 1240,
      max_drawdown = 0, price_history = [120]\<rparr>"

text \<open>The grid of \<open>demo_cfg\<close> with a step of 1 percent, so that the two levels of a tick
  at 120 have the level keys of 119 and 118; the two orders of its first tick, the state
  then, and the state after the first order is filled at its price and quantity.\<close>

definition wide_cfg :: config where
  "wide_cfg = demo_cfg\<lparr>step_percent := 1 / 100\<rparr>"

definition wide_buy1 :: Order where
  "wide_buy1 =
     \<lparr>o_id = ''BUY_118.80_0'', o_symbol = ''BTCUSDT'', o_side = BUY, o_price = 118,
      o_quantity = 143 / 25, o_status = NEW, o_level_key = Some ''119.00000000''\<rparr>"

definition wide_buy2 :: Order where
  "wide_buy2 =
     \<lparr>o_id = ''BUY_117.60_1'', o_symbol = ''BTCUSDT'', o_side = BUY, o_price = 117,
      o_quantity = 577 / 100, o_status = NEW, o_level_key = Some ''118.00000000''\<rparr>"

definition wide_tick1 :: state where
  "wide_tick1 =
     \<lparr>cash = 1000, base_holdings = 0,
      active_orders = [(''BUY_118.80_0'', wide_buy1), (''BUY_117.60_1'', wide_buy2)],
      positions = [], total_pnl = 0, realized_pnl = 0, max_equity = 1000,
      max_drawdown = 0, price_history = [120]\<rparr>"

definition wide_fill1 :: state where
  "wide_fill1 =
     \<lparr>cash = 8126 / 25, base_holdings = 143 / 25,
      active_orders = [(''BUY_117.60_1'', wide_buy2)],
      positions = [(''119.00000000'',
                    \<lparr>p_level_price = 118, p_quantity = 143 / 25, p_buy_price = 118,
                     p_tp_price = Some 119, p_tp_order_id = None\<rparr>)],
      total_pnl = 0, realized_pnl = 0, max_equity = 1000,
      max_drawdown = 0, price_history = [120]\<rparr>"

text \<open>The same wide grid with geometric sizing and a skew strength of 2.5; the two orders
  of its first tick, the state then, and the state after the second order alone is filled
  at its price and quantity.\<close>

definition geo_cfg :: config where
  "geo_cfg = wide_cfg\<lparr>sizing_mode := ''geometric'', skew_strength := 5 / 2\<rparr>"

definition geo_buy1 :: Order where
  "geo_buy1 =
     \<lparr>o_id = ''BUY_118.80_0'', o_symbol = ''BTCUSDT'', o_side = BUY, o_price = 118,
      o_quantity = 39 / 5, o_status = NEW, o_level_key = Some ''119.00000000''\<rparr>"

definition geo_buy2 :: Order where
  "geo_buy2 =
     \<lparr>o_id = ''BUY_117.60_1'', o_symbol = ''BTCUSDT'', o_side = BUY, o_price = 117,
      o_quantity = 236 / 25, o_status = NEW, o_level_key = Some ''118.00000000''\<rparr>"

definition geo_tick1 :: state where
  "geo_tick1 =
     \<lparr>cash = 1000, base_holdings = 0,
      active_orders = [(''BUY_118.80_0'', geo_buy1), (''BUY_117.60_1'', geo_buy2)],
      positions = [], total_pnl = 0, realized_pnl = 0, max_equity = 1000,
      max_drawdown = 0, price_history = [120]\<rparr>"

definition geo_fill2 :: state where
  "geo_fill2 =
     \<lparr>cash = - (2612 / 25), base_holdings = 236 / 25,
      active_orders = [(''BUY_118.80_0'', geo_buy1)],
      positions = [(''118.00000000'',
                    \<lparr>p_level_price = 117, p_quantity = 236 / 25, p_buy_price = 117,
                     p_tp_price = Some 118, p_tp_order_id = None\<rparr>)],
      total_pnl = 0, realized_pnl = 0, max_equity = 1000,
      max_drawdown = 0, price_history = [120]\<rparr>"

section \<open>Evaluating the examples\<close>

lemma step_demo_tick1:
  "step_book demo_cfg (init demo_cfg) 120 119 121 =
     Inr (demo_tick1,
          \<lparr>place_orders = [demo_buy1, demo_buy2], cancel_orders = [],
           messages = [PlacedBuyMsg (567 / 100) 119, PlacedBuyMsg (143 / 25) 118]\<rparr>)"
  by code_simp

lemma fill_demo_buy1:
  "on_order_filled demo_cfg demo_tick1 ''BUY_119.40_0'' 119 (567 / 100) =
     Inr (demo_fill1, [BuyFilledLog (567 / 100) 119 120,
                       BalanceLog (32527 / 100) (567 / 100)])"
  by code_simp

lemma fill_demo_buy2:
  "on_order_filled demo_cfg demo_fill1 ''BUY_118.80_1'' 118 (143 / 25) =
     Inr (demo_fill2, [BuyFilledLog (143 / 25) 118 119,
                       BalanceLog (- (34969 / 100)) (1139 / 100)])"
  by code_simp

lemma step_held_tick1:
  "step_book held_cfg (init held_cfg) 120 119 121 =
     Inr (held_tick1,
          \<lparr>place_orders = [held_buy1, held_buy2], cancel_orders = [],
           messages = [PlacedBuyMsg (247 / 50) 119, PlacedBuyMsg (249 / 50) 118]\<rparr>)"
  by code_simp

lemma fill_held_buy1:
  "on_order_filled held_cfg held_tick1 ''BUY_119.40_0'' 119 (247 / 50) =
     Inr (held_fill1, [BuyFilledLog (247 / 50) 119 120,
                       BalanceLog (20607 / 50) (347 / 50)])"
  by code_simp

lemma step_wide_tick1:
  "step_book wide_cfg (init wide_cfg) 120 119 121 =
     Inr (wide_tick1,
          \<lparr>place_orders = [wide_buy1, wide_buy2], cancel_orders = [],
           messages = [PlacedBuyMsg (143 / 25) 118, PlacedBuyMsg (577 / 100) 117]\<rparr>)"
  by code_simp

lemma fill_wide_buy1:
  "on_order_filled wide_cfg wide_tick1 ''BUY_118.80_0'' 118 (143 / 25) =
     Inr (wide_fill1, [BuyFilledLog (143 / 25) 118 119,
                       BalanceLog (8126 / 25) (143 / 25)])"
  by code_simp

section \<open>Frame lemmas\<close>

text \<open>The placement loop only adds active orders, placements and messages.\<close>

lemma place_buys_frame:
  "place_buys cfg p ls s acts = Inr (s', acts') \<Longrightarrow>
     cash s' = cash s \<and> base_holdings s' = base_holdings s \<and>
     positions s' = positions s \<and> max_equity s' = max_equity s \<and>
     total_pnl s' = total_pnl s \<and> realized_pnl s' = realized_pnl s \<and>
     max_drawdown s' = max_drawdown s \<and>
     price_history s' = price_history s \<and>
     cancel_orders acts' = cancel_orders acts"
proof (induction ls arbitrary: s acts)
  case Nil
  then show ?case by simp
next
  case (Cons a ls)
  obtain i level where a: "a = (i, level)" by (cases a)
  from Cons.prems show ?case
    unfolding a
    by (auto simp: Let_def split: if_splits sum.splits prod.splits dest!: Cons.IH)
qed

lemma step_book_frame:
  "step_book cfg s p b a = Inr (s', acts) \<Longrightarrow>
     cash s' = cash s \<and> base_holdings s' = base_holdings s \<and>
     positions s' = positions s \<and> total_pnl s' = total_pnl s \<and>
     realized_pnl s' = realized_pnl s \<and> cancel_orders acts = []"
  unfolding step_book_def
  by (auto simp: Let_def split: if_splits dest!: place_buys_frame)

lemma step_book_max_equity:
  "step_book cfg s p b a = Inr (s', acts) \<Longrightarrow>
     max_equity s' =
       (if dd_pause_frac cfg < (max_equity s - (cash s + base_holdings s * p)) / max_equity s
           \<or> kill_switch_frac cfg < (max_equity s - (cash s + base_holdings s * p)) / max_equity s
        then max_equity s else max (max_equity s) (cash s + base_holdings s * p))"
  unfolding step_book_def
  by (auto simp: Let_def split: if_splits dest!: place_buys_frame)

lemma handle_buy_fill_fields:
  "handle_buy_fill cfg s order fp fq = Inr (s', out) \<Longrightarrow>
     cash s' = cash s - fp * fq \<and> base_holdings s' = base_holdings s + fq \<and>
     max_equity s' = max_equity s \<and> active_orders s' = active_orders s \<and>
     realized_pnl s' = realized_pnl s \<and> total_pnl s' = total_pnl s \<and>
     price_history s' = price_history s"
  unfolding handle_buy_fill_def
  by (auto simp: Let_def split: sum.splits)

lemma handle_sell_fill_frame:
  "handle_sell_fill cfg s order fp fq = (s', out) \<Longrightarrow>
     max_equity s' = max_equity s \<and> active_orders s' = active_orders s \<and>
     price_history s' = price_history s"
  unfolding handle_sell_fill_def
  by (auto simp: Let_def split: option.splits if_splits)

lemma on_order_filled_max_equity:
  "on_order_filled cfg s oid fp fq = Inr (s', out) \<Longrightarrow> max_equity s' = max_equity s"
  unfolding on_order_filled_def
  by (auto simp: Let_def split: option.splits if_splits sum.splits prod.splits
           dest!: handle_buy_fill_fields handle_sell_fill_frame)

lemma apply_call_max_equity:
  "apply_call cfg s c = Inr s' \<Longrightarrow> max_equity s \<le> max_equity s'"
  unfolding apply_call_def
  by (auto split: call.splits sum.splits if_splits
           dest!: on_order_filled_max_equity step_book_max_equity)

lemma run_max_equity:
  "run cfg s cs = Inr s' \<Longrightarrow> max_equity s \<le> max_equity s'"
proof (induction cs arbitrary: s)
  case Nil
  then show ?case by simp
next
  case (Cons c cs)
  then obtain s1 where a: "apply_call cfg s c = Inr s1" and r: "run cfg s1 cs = Inr s'"
    by (auto split: sum.splits)
  from apply_call_max_equity[OF a] Cons.IH[OF r] show ?case by simp
qed

text \<open>What a fill of a tracked order does to the state.\<close>

lemma handle_buy_fill_position:
  "handle_buy_fill cfg s order fp fq = Inr (s', out) \<Longrightarrow>
     \<exists>tp. positions s' =
            AList.update (fill_level_key order fp)
              \<lparr>p_level_price = fp, p_quantity = fq, p_buy_price = fp,
               p_tp_price = Some tp, p_tp_order_id = None\<rparr> (positions s)"
  unfolding handle_buy_fill_def
  by (auto simp: Let_def split: sum.splits)

lemma on_order_filled_buy:
  assumes "map_of (active_orders s) oid = Some order" and "o_side order = BUY"
    and "on_order_filled cfg s oid fp fq = Inr (s', out)"
  shows "\<exists>tp. positions s' =
            AList.update (fill_level_key order fp)
              \<lparr>p_level_price = fp, p_quantity = fq, p_buy_price = fp,
               p_tp_price = Some tp, p_tp_order_id = None\<rparr> (positions s)"
    and "cash s' = cash s - fp * fq"
    and "base_holdings s' = base_holdings s + fq"
    and "realized_pnl s' = realized_pnl s"
    and "total_pnl s' = total_pnl s"
    and "active_orders s' = AList.delete oid (active_orders s)"
proof -
  from assms obtain sh where
    h: "handle_buy_fill cfg s (order\<lparr>o_status := FILLED\<rparr>) fp fq = Inr (sh, out)" and
    s': "s' = sh\<lparr>active_orders := AList.delete oid (active_orders sh)\<rparr>"
    by (auto simp: on_order_filled_def Let_def split: sum.splits)
  have k: "fill_level_key (order\<lparr>o_status := FILLED\<rparr>) fp = fill_level_key order fp"
    by (simp add: fill_level_key_def)
  from handle_buy_fill_position[OF h] k s'
  show "\<exists>tp. positions s' =
            AList.update (fill_level_key order fp)
              \<lparr>p_level_price = fp, p_quantity = fq, p_buy_price = fp,
               p_tp_price = Some tp, p_tp_order_id = None\<rparr> (positions s)"
    by simp
  from handle_buy_fill_fields[OF h] s'
  show "cash s' = cash s - fp * fq" "base_holdings s' = base_holdings s + fq"
    "realized_pnl s' = realized_pnl s" "total_pnl s' = total_pnl s"
    "active_orders s' = AList.delete oid (active_orders s)"
    by simp_all
qed

text \<open>Which orders a call can leave among the active ones.\<close>

lemma set_update_subset: "set (AList.update k v al) \<subseteq> insert (k, v) (set al)"
  by (induction al) auto

lemma set_delete_subset: "set (AList.delete k al) \<subseteq> set al"
  by (auto simp: AList.delete_eq)

text \<open>The placement loop adds BUY orders only.\<close>

lemma place_buys_orders:
  "place_buys cfg p ls s acts = Inr (s', acts') \<Longrightarrow>
     (k, order) \<in> set (active_orders s') \<Longrightarrow>
     (k, order) \<in> set (active_orders s) \<or> o_side order = BUY"
proof (induction ls arbitrary: s acts)
  case Nil
  then show ?case by simp
next
  case (Cons a ls)
  obtain i level where a: "a = (i, level)" by (cases a)
  from Cons.prems show ?case
    unfolding a
    using set_update_subset
    by (fastforce simp: Let_def split: if_splits sum.splits prod.splits dest!: Cons.IH)
qed

lemma step_book_orders:
  "step_book cfg s p b a = Inr (s', acts) \<Longrightarrow>
     (k, order) \<in> set (active_orders s') \<Longrightarrow>
     (k, order) \<in> set (active_orders s) \<or> o_side order = BUY"
  unfolding step_book_def
  by (auto simp: Let_def split: if_splits dest!: place_buys_orders)

lemma on_order_filled_orders:
  "on_order_filled cfg s oid fp fq = Inr (s', out) \<Longrightarrow>
     set (active_orders s') \<subseteq> set (active_orders s)"
  unfolding on_order_filled_def
  using set_delete_subset
  by (fastforce simp: Let_def split: option.splits if_splits sum.splits prod.splits
        dest!: handle_buy_fill_fields handle_sell_fill_frame)

section \<open>The claims\<close>

subsection \<open>C1\<close>

text \<open>Above the kill threshold a tick that returns places nothing, which is the first
  half of C1, and cancels nothing and keeps every order and position, against the
  second half.\<close>

lemma step_book_above_kill_threshold:
  assumes "max_equity s \<noteq> 0"
    and "kill_switch_frac cfg < (max_equity s - (cash s + base_holdings s * p)) / max_equity s"
  shows "\<exists>s' acts. step_book cfg s p bid ask = Inr (s', acts) \<and>
           place_orders acts = [] \<and> cancel_orders acts = [] \<and>
           active_orders s' = active_orders s \<and> positions s' = positions s \<and>
           cash s' = cash s \<and> base_holdings s' = base_holdings s"
  using assms unfolding step_book_def by (simp add: Let_def)

text \<open>
  C1, evaluated where it fails. In \<open>held_fill1\<close> one position is open and one BUY order is
  active; the watermark is 1240. A tick at 50 gives a drawdown of about 0.39, above the
  kill threshold 0.1. The batch returned has nothing to place, which the claim asks for,
  but it has nothing to cancel either, its only message is the pause message, and the
  position and the order stay: no liquidation is emitted.
\<close>

theorem step_book_halted_no_liquidation:
  "kill_switch_frac held_cfg <
     (max_equity held_fill1 - (cash held_fill1 + base_holdings held_fill1 * 50))
       / max_equity held_fill1 \<and>
   step_book held_cfg held_fill1 50 49 51 =
     Inr (held_fill1\<lparr>price_history := [120, 50]\<rparr>,
          \<lparr>place_orders = [], cancel_orders = [],
           messages = [PauseMsg (24043 / 62000) (1 / 20)]\<rparr>) \<and>
   active_orders held_fill1 = [(''BUY_118.80_1'', held_buy2)] \<and>
   map (\<lambda>(k, pos). p_quantity pos) (positions held_fill1) = [247 / 50]"
proof -
  have "kill_switch_frac held_cfg <
     (max_equity held_fill1 - (cash held_fill1 + base_holdings held_fill1 * 50))
       / max_equity held_fill1"
    by (simp add: held_cfg_def demo_cfg_def held_fill1_def)
  moreover have "step_book held_cfg held_fill1 50 49 51 =
     Inr (held_fill1\<lparr>price_history := [120, 50]\<rparr>,
          \<lparr>place_orders = [], cancel_orders = [],
           messages = [PauseMsg (24043 / 62000) (1 / 20)]\<rparr>)"
    by code_simp
  ultimately show ?thesis by (simp add: held_fill1_def)
qed

subsection \<open>C2\<close>

text \<open>What admission tests before it lets a BUY order through: the position size of
  level 0, whatever the level of the order.\<close>

lemma can_place_buy_size:
  "can_place_buy cfg s level p = Inr (True, why) \<Longrightarrow>
     \<exists>size. calculate_position_size cfg s 0 p = Inr size \<and> size \<le> cash s"
  unfolding can_place_buy_def
  by (auto simp: Let_def split: sum.splits if_splits)

text \<open>
  C2, evaluated where it fails. \<open>geo_cfg\<close> starts with 1000 in cash and sizes
  geometrically. On its first tick at 120 admission sizes each level at index 0, which
  gives 920.45 and is within the cash, and lets both levels through. The order of the
  second level is then sized at its own index 1, which gives 1104.55, and is placed for
  9.44 units at 117. That one admitted order, filled at its own price and quantity while
  the other is still open, costs 1104.48 and leaves the cash at -104.48: admission did
  not keep the order within the cash, and the fill drove the cash negative.
\<close>

theorem admitted_order_exceeds_cash:
  "cash (init geo_cfg) = 1000 \<and>
   calculate_position_size geo_cfg (init geo_cfg) 0 120 = Inr (10125 / 11) \<and>
   calculate_position_size geo_cfg (init geo_cfg) 1 120 = Inr (12150 / 11) \<and>
   step_book geo_cfg (init geo_cfg) 120 119 121 =
     Inr (geo_tick1,
          \<lparr>place_orders = [geo_buy1, geo_buy2], cancel_orders = [],
           messages = [PlacedBuyMsg (39 / 5) 118, PlacedBuyMsg (236 / 25) 117]\<rparr>) \<and>
   o_price geo_buy2 * o_quantity geo_buy2 = 27612 / 25 \<and>
   run geo_cfg (init geo_cfg)
     [Tick 120 119 121,
      Fill ''BUY_117.60_1'' (o_price geo_buy2) (o_quantity geo_buy2)] = Inr geo_fill2 \<and>
   cash geo_fill2 = - (2612 / 25) \<and>
   \<not> 0 \<le> cash geo_fill2"
proof -
  have c: "cash (init geo_cfg) = 1000"
    by (simp add: init_def geo_cfg_def wide_cfg_def demo_cfg_def)
  have z0: "calculate_position_size geo_cfg (init geo_cfg) 0 120 = Inr (10125 / 11)"
    by code_simp
  have z1: "calculate_position_size geo_cfg (init geo_cfg) 1 120 = Inr (12150 / 11)"
    by code_simp
  have st: "step_book geo_cfg (init geo_cfg) 120 119 121 =
     Inr (geo_tick1,
          \<lparr>place_orders = [geo_buy1, geo_buy2], cancel_orders = [],
           messages = [PlacedBuyMsg (39 / 5) 118, PlacedBuyMsg (236 / 25) 117]\<rparr>)"
    by code_simp
  have p: "o_price geo_buy2 = 117" "o_quantity geo_buy2 = 236 / 25"
    by (simp_all add: geo_buy2_def)
  have cost: "o_price geo_buy2 * o_quantity geo_buy2 = 27612 / 25"
    by (simp add: p)
  have fl: "on_order_filled geo_cfg geo_tick1 ''BUY_117.60_1'' 117 (236 / 25) =
     Inr (geo_fill2, [BuyFilledLog (236 / 25) 117 118,
                       BalanceLog (- (2612 / 25)) (236 / 25)])"
    by code_simp
  have r: "run geo_cfg (init geo_cfg)
     [Tick 120 119 121,
      Fill ''BUY_117.60_1'' (o_price geo_buy2) (o_quantity geo_buy2)] = Inr geo_fill2"
    by (simp add: p apply_call_def st fl)
  have n: "cash geo_fill2 = - (2612 / 25)"
    by (simp add: geo_fill2_def)
  from c z0 z1 st cost r n show ?thesis by simp
qed

subsection \<open>C3\<close>

lemma sum_list_update_new:
  "map_of al k = None \<Longrightarrow>
     sum_list (map f (AList.update k v al)) = sum_list (map f al) + f (k, v)"
  by (induction al) (auto simp: add.assoc split: if_splits)

lemma apply_call_conservation:
  assumes "apply_call cfg s c = Inr s'" and "fill_on_free_level s c"
    and "\<forall>(k, order) \<in> set (active_orders s). o_side order = BUY"
    and "base_holdings s = b0 + positions_quantity s"
  shows "(\<forall>(k, order) \<in> set (active_orders s'). o_side order = BUY) \<and>
         base_holdings s' = b0 + positions_quantity s'"
proof (cases c)
  case (Tick p b a)
  with assms(1) obtain acts where st: "step_book cfg s p b a = Inr (s', acts)"
    by (auto simp: apply_call_def split: sum.splits)
  from step_book_frame[OF st] assms(4)
  have "base_holdings s' = b0 + positions_quantity s'"
    by (simp add: positions_quantity_def)
  moreover from step_book_orders[OF st] assms(3)
  have "\<forall>(k, order) \<in> set (active_orders s'). o_side order = BUY" by fastforce
  ultimately show ?thesis by simp
next
  case (Fill oid fp fq)
  with assms(1) obtain out where f: "on_order_filled cfg s oid fp fq = Inr (s', out)"
    by (auto simp: apply_call_def split: sum.splits)
  from on_order_filled_orders[OF f] assms(3)
  have buys: "\<forall>(k, order) \<in> set (active_orders s'). o_side order = BUY" by auto
  show ?thesis
  proof (cases "map_of (active_orders s) oid")
    case None
    with f have "s' = s" by (simp add: on_order_filled_def)
    with assms(3,4) show ?thesis by simp
  next
    case (Some order)
    then have "(oid, order) \<in> set (active_orders s)" by (rule map_of_SomeD)
    with assms(3) have side: "o_side order = BUY" by auto
    from assms(2) Fill Some
    have free: "map_of (positions s) (fill_level_key order fp) = None"
      by (simp add: fill_on_free_level_def)
    from on_order_filled_buy(1)[OF Some side f] obtain tp where
      "positions s' = AList.update (fill_level_key order fp)
          \<lparr>p_level_price = fp, p_quantity = fq, p_buy_price = fp,
           p_tp_price = Some tp, p_tp_order_id = None\<rparr> (positions s)" ..
    with free have "positions_quantity s' = positions_quantity s + fq"
      by (simp add: positions_quantity_def sum_list_update_new)
    with on_order_filled_buy(3)[OF Some side f] assms(4) buys show ?thesis by simp
  qed
qed

lemma run_conservation:
  "run cfg s cs = Inr s' \<Longrightarrow> each_call fill_on_free_level cfg s cs \<Longrightarrow>
   \<forall>(k, order) \<in> set (active_orders s). o_side order = BUY \<Longrightarrow>
   base_holdings s = b0 + positions_quantity s \<Longrightarrow>
     base_holdings s' = b0 + positions_quantity s'"
proof (induction cs arbitrary: s)
  case Nil
  then show ?case by simp
next
  case (Cons c cs)
  from Cons.prems(1) obtain s1 where
    a: "apply_call cfg s c = Inr s1" and r: "run cfg s1 cs = Inr s'"
    by (auto split: sum.splits)
  from Cons.prems(2) a have ok: "fill_on_free_level s c"
    and rest: "each_call fill_on_free_level cfg s1 cs"
    by simp_all
  from apply_call_conservation[OF a ok Cons.prems(3,4)]
  have "\<forall>(k, order) \<in> set (active_orders s1). o_side order = BUY"
    and "base_holdings s1 = b0 + positions_quantity s1"
    by simp_all
  from Cons.IH[OF r rest this] show ?case .
qed

text \<open>C3 as written fails: \<open>held_cfg\<close> starts with 2 units of base holdings and no
  position. A fill alone, for an id the fresh engine does not track, leaves 2 units
  against a sum of 0; after a tick and the fill of the first order the holdings are 6.94
  against a sum of 4.94. The difference of 2 is twice the tick size.\<close>

theorem base_holdings_exceed_positions_counterexample:
  "run held_cfg (init held_cfg) [Fill ''BUY_119.40_0'' 119 (247 / 50)]
     = Inr (init held_cfg) \<and>
   base_holdings (init held_cfg) = 2 \<and> positions_quantity (init held_cfg) = 0 \<and>
   run held_cfg (init held_cfg) [Tick 120 119 121, Fill ''BUY_119.40_0'' 119 (247 / 50)]
     = Inr held_fill1 \<and>
   base_holdings held_fill1 = 347 / 50 \<and> positions_quantity held_fill1 = 247 / 50 \<and>
   tick_size held_cfg = 1 \<and>
   \<not> \<bar>base_holdings held_fill1 - positions_quantity held_fill1\<bar> \<le> tick_size held_cfg"
proof -
  have r0: "run held_cfg (init held_cfg) [Fill ''BUY_119.40_0'' 119 (247 / 50)]
     = Inr (init held_cfg)"
    by (simp add: apply_call_def on_order_filled_def init_def)
  have r1: "run held_cfg (init held_cfg)
              [Tick 120 119 121, Fill ''BUY_119.40_0'' 119 (247 / 50)] = Inr held_fill1"
    by (simp add: apply_call_def step_held_tick1 fill_held_buy1)
  have v: "base_holdings (init held_cfg) = 2" "positions_quantity (init held_cfg) = 0"
    "base_holdings held_fill1 = 347 / 50" "positions_quantity held_fill1 = 247 / 50"
    "tick_size held_cfg = 1"
    by (simp_all add: init_def held_cfg_def demo_cfg_def held_fill1_def
          positions_quantity_def)
  from r0 r1 v show ?thesis by simp
qed

text \<open>
  C3, as amended. From a fresh engine, after every sequence of ticks and fills in which
  no fill of a tracked order arrives for a level key that already holds a position, the
  base holdings equal the starting holdings \<open>base_start_quote / 45000\<close> plus the sum of
  the quantities of the open positions, exactly.
\<close>

theorem base_holdings_conservation:
  assumes "each_call fill_on_free_level cfg (init cfg) cs"
    and "run cfg (init cfg) cs = Inr s'"
  shows "base_holdings s' = base_start_quote cfg / 45000 + positions_quantity s'"
proof -
  have "\<forall>(k, order) \<in> set (active_orders (init cfg)). o_side order = BUY"
    by (simp add: init_def)
  moreover have "base_holdings (init cfg)
                   = base_start_quote cfg / 45000 + positions_quantity (init cfg)"
    by (simp add: init_def positions_quantity_def)
  ultimately show ?thesis
    using run_conservation[OF assms(2) assms(1)] by blast
qed

theorem base_holdings_conservation_witness:
  "each_call fill_on_free_level held_cfg (init held_cfg)
     [Tick 120 119 121, Fill ''BUY_119.40_0'' 119 (247 / 50)] \<and>
   run held_cfg (init held_cfg) [Tick 120 119 121, Fill ''BUY_119.40_0'' 119 (247 / 50)]
     = Inr held_fill1 \<and>
   base_holdings held_fill1 = 347 / 50 \<and>
   base_start_quote held_cfg / 45000 = 2 \<and>
   positions_quantity held_fill1 = 247 / 50 \<and>
   base_holdings held_fill1 = base_start_quote held_cfg / 45000 + positions_quantity held_fill1"
proof -
  have ok1: "fill_on_free_level (init held_cfg) (Tick 120 119 121)"
    by (simp add: fill_on_free_level_def)
  have ok2: "fill_on_free_level held_tick1 (Fill ''BUY_119.40_0'' 119 (247 / 50))"
    by (simp add: fill_on_free_level_def held_tick1_def)
  have e: "each_call fill_on_free_level held_cfg (init held_cfg)
     [Tick 120 119 121, Fill ''BUY_119.40_0'' 119 (247 / 50)]"
    by (simp add: apply_call_def step_held_tick1 fill_held_buy1 ok1 ok2)
  have r: "run held_cfg (init held_cfg)
             [Tick 120 119 121, Fill ''BUY_119.40_0'' 119 (247 / 50)] = Inr held_fill1"
    by (simp add: apply_call_def step_held_tick1 fill_held_buy1)
  have v: "base_holdings held_fill1 = 347 / 50" "base_start_quote held_cfg / 45000 = 2"
    "positions_quantity held_fill1 = 247 / 50"
    by (simp_all add: held_cfg_def demo_cfg_def held_fill1_def positions_quantity_def)
  from base_holdings_conservation[OF e r] e r v show ?thesis by simp
qed

text \<open>Why the amended statement asks for a free level: in \<open>demo_fill2\<close> the second fill
  landed on the level key of the first and replaced its position, so the holdings count
  both fills and the positions only the second.\<close>

lemma position_replaced_example:
  "base_holdings demo_fill2 = 1139 / 100 \<and> positions_quantity demo_fill2 = 143 / 25"
  by (simp add: demo_fill2_def positions_quantity_def)

subsection \<open>C4\<close>

text \<open>
  C4. Whenever the drawdown \<open>(max_equity - equity) / max_equity\<close> of a tick lies strictly
  above the pause threshold, \<open>step_book\<close> returns a batch with no order to place, none to
  cancel and the pause message as its only message, and it leaves the active orders, the
  positions, the cash and the base holdings as they were; only the price history gains
  the tick's price. The kill threshold plays no part: the pause test comes first, so the
  statement holds at or below it and above it alike.
\<close>

theorem step_book_paused:
  assumes "max_equity s \<noteq> 0"
    and "dd_pause_frac cfg < (max_equity s - (cash s + base_holdings s * p)) / max_equity s"
  shows "\<exists>s'. step_book cfg s p bid ask =
           Inr (s', \<lparr>place_orders = [], cancel_orders = [],
                     messages = [PauseMsg ((max_equity s - (cash s + base_holdings s * p))
                                           / max_equity s) (dd_pause_frac cfg)]\<rparr>) \<and>
           active_orders s' = active_orders s \<and> positions s' = positions s \<and>
           cash s' = cash s \<and> base_holdings s' = base_holdings s \<and>
           max_equity s' = max_equity s"
  using assms unfolding step_book_def by (simp add: Let_def)

theorem step_book_paused_witness:
  "max_equity held_tick1 \<noteq> 0 \<and>
   dd_pause_frac held_cfg <
     (max_equity held_tick1 - (cash held_tick1 + base_holdings held_tick1 * 80))
       / max_equity held_tick1 \<and>
   (max_equity held_tick1 - (cash held_tick1 + base_holdings held_tick1 * 80))
       / max_equity held_tick1 \<le> kill_switch_frac held_cfg \<and>
   (\<exists>s'. step_book held_cfg held_tick1 80 79 81 =
           Inr (s', \<lparr>place_orders = [], cancel_orders = [],
                     messages = [PauseMsg (2 / 31) (1 / 20)]\<rparr>) \<and>
           active_orders s' = active_orders held_tick1 \<and>
           positions s' = positions held_tick1 \<and>
           cash s' = 1000 \<and> base_holdings s' = 2 \<and> max_equity s' = 1240)"
proof -
  have h1: "max_equity held_tick1 \<noteq> 0"
    by (simp add: held_tick1_def)
  have h2: "dd_pause_frac held_cfg <
     (max_equity held_tick1 - (cash held_tick1 + base_holdings held_tick1 * 80))
       / max_equity held_tick1"
    by (simp add: held_tick1_def held_cfg_def demo_cfg_def)
  have h3: "(max_equity held_tick1 - (cash held_tick1 + base_holdings held_tick1 * 80))
       / max_equity held_tick1 \<le> kill_switch_frac held_cfg"
    by (simp add: held_tick1_def held_cfg_def demo_cfg_def)
  from step_book_paused[OF h1 h2, of 79 81] h1 h2 h3 show ?thesis
    by (simp add: held_tick1_def held_cfg_def demo_cfg_def)
qed

subsection \<open>C5\<close>

text \<open>A call keeps three things true of an engine: every tracked order is a BUY order,
  no position carries a take-profit order id, and both profit figures are what they
  were. Ticks add BUY orders only, and the fill of a BUY order stores its position with
  no take-profit order id.\<close>

lemma apply_call_realizes_nothing:
  assumes "apply_call cfg s c = Inr s'"
    and "\<forall>(k, order) \<in> set (active_orders s). o_side order = BUY"
    and "\<forall>(k, pos) \<in> set (positions s). p_tp_order_id pos = None"
  shows "(\<forall>(k, order) \<in> set (active_orders s'). o_side order = BUY) \<and>
         (\<forall>(k, pos) \<in> set (positions s'). p_tp_order_id pos = None) \<and>
         realized_pnl s' = realized_pnl s \<and> total_pnl s' = total_pnl s"
proof (cases c)
  case (Tick p b a)
  with assms(1) obtain acts where st: "step_book cfg s p b a = Inr (s', acts)"
    by (auto simp: apply_call_def split: sum.splits)
  from step_book_orders[OF st] assms(2)
  have "\<forall>(k, order) \<in> set (active_orders s'). o_side order = BUY" by fastforce
  with step_book_frame[OF st] assms(3) show ?thesis by simp
next
  case (Fill oid fp fq)
  with assms(1) obtain out where f: "on_order_filled cfg s oid fp fq = Inr (s', out)"
    by (auto simp: apply_call_def split: sum.splits)
  from on_order_filled_orders[OF f] assms(2)
  have buys: "\<forall>(k, order) \<in> set (active_orders s'). o_side order = BUY" by auto
  show ?thesis
  proof (cases "map_of (active_orders s) oid")
    case None
    with f have "s' = s" by (simp add: on_order_filled_def)
    with assms(2,3) show ?thesis by simp
  next
    case (Some order)
    then have "(oid, order) \<in> set (active_orders s)" by (rule map_of_SomeD)
    with assms(2) have side: "o_side order = BUY" by auto
    from on_order_filled_buy(1)[OF Some side f] obtain tp where
      ps: "positions s' = AList.update (fill_level_key order fp)
          \<lparr>p_level_price = fp, p_quantity = fq, p_buy_price = fp,
           p_tp_price = Some tp, p_tp_order_id = None\<rparr> (positions s)" ..
    have "\<forall>(k, pos) \<in> set (positions s'). p_tp_order_id pos = None"
      unfolding ps using set_update_subset assms(3) by fastforce
    with buys on_order_filled_buy(4,5)[OF Some side f] show ?thesis by simp
  qed
qed

text \<open>So from a fresh engine no sequence of ticks and fills, whatever the order ids, the
  prices and the quantities, realises any profit.\<close>

lemma fresh_run_realizes_nothing:
  assumes "run cfg (init cfg) cs = Inr s'"
  shows "realized_pnl s' = 0 \<and> total_pnl s' = 0 \<and>
         (\<forall>(k, order) \<in> set (active_orders s'). o_side order = BUY) \<and>
         (\<forall>(k, pos) \<in> set (positions s'). p_tp_order_id pos = None)"
proof -
  have gen: "run cfg s cs = Inr s' \<Longrightarrow>
        \<forall>(k, order) \<in> set (active_orders s). o_side order = BUY \<Longrightarrow>
        \<forall>(k, pos) \<in> set (positions s). p_tp_order_id pos = None \<Longrightarrow>
        realized_pnl s' = realized_pnl s \<and> total_pnl s' = total_pnl s \<and>
        (\<forall>(k, order) \<in> set (active_orders s'). o_side order = BUY) \<and>
        (\<forall>(k, pos) \<in> set (positions s'). p_tp_order_id pos = None)" for s
  proof (induction cs arbitrary: s)
    case Nil
    then show ?case by simp
  next
    case (Cons c cs)
    from Cons.prems(1) obtain s1 where
      a: "apply_call cfg s c = Inr s1" and r: "run cfg s1 cs = Inr s'"
      by (auto split: sum.splits)
    from apply_call_realizes_nothing[OF a Cons.prems(2,3)]
    have i1: "\<forall>(k, order) \<in> set (active_orders s1). o_side order = BUY"
      and i2: "\<forall>(k, pos) \<in> set (positions s1). p_tp_order_id pos = None"
      and i3: "realized_pnl s1 = realized_pnl s" "total_pnl s1 = total_pnl s"
      by simp_all
    from Cons.IH[OF r i1 i2] i3 show ?case by simp
  qed
  from gen[OF assms] show ?thesis by (simp add: init_def)
qed

text \<open>
  C5, evaluated where it fails. \<open>wide_cfg\<close> places a BUY order of 5.72 units at 118 on
  its first tick, and the order is filled at its price and quantity. The grid step at 118
  is 1.18, so the claim asks that the fill of the take-profit order at 119.18 raise
  \<open>realized_pnl\<close> by \<open>1.18 * 5.72 = 6.7496\<close>. The BUY fill stores the position with a
  take-profit price of 119 and no take-profit order id, and it places no order; the only
  tracked order is the other BUY order. A SELL fill of 5.72 units at 119.18 is therefore
  a fill for an unknown id: the state stays as it was and \<open>realized_pnl\<close> stays 0.
\<close>

theorem take_profit_fill_realizes_nothing:
  "run wide_cfg (init wide_cfg) [Tick 120 119 121, Fill ''BUY_118.80_0'' 118 (143 / 25)]
     = Inr wide_fill1 \<and>
   get_grid_step wide_cfg wide_tick1 118 = 59 / 50 \<and>
   map (\<lambda>(k, pos). (p_buy_price pos, p_quantity pos, p_tp_price pos, p_tp_order_id pos))
     (positions wide_fill1) = [(118, 143 / 25, Some 119, None)] \<and>
   map (\<lambda>(k, order). (k, o_side order)) (active_orders wide_fill1)
     = [(''BUY_117.60_1'', BUY)] \<and>
   on_order_filled wide_cfg wide_fill1 ''TP_119.00_0'' (118 + 59 / 50) (143 / 25)
     = Inr (wide_fill1, [UnknownOrderLog ''TP_119.00_0'']) \<and>
   realized_pnl wide_fill1 = 0 \<and> total_pnl wide_fill1 = 0 \<and>
   (59 / 50 :: real) * (143 / 25) = 8437 / 1250"
proof -
  have r: "run wide_cfg (init wide_cfg)
             [Tick 120 119 121, Fill ''BUY_118.80_0'' 118 (143 / 25)] = Inr wide_fill1"
    by (simp add: apply_call_def step_wide_tick1 fill_wide_buy1)
  have g: "get_grid_step wide_cfg wide_tick1 118 = 59 / 50"
    by (simp add: get_grid_step_def wide_cfg_def demo_cfg_def)
  have u: "on_order_filled wide_cfg wide_fill1 ''TP_119.00_0'' (118 + 59 / 50) (143 / 25)
     = Inr (wide_fill1, [UnknownOrderLog ''TP_119.00_0''])"
    by (simp add: on_order_filled_def wide_fill1_def)
  have v: "map (\<lambda>(k, pos). (p_buy_price pos, p_quantity pos, p_tp_price pos, p_tp_order_id pos))
     (positions wide_fill1) = [(118, 143 / 25, Some 119, None)]"
    "map (\<lambda>(k, order). (k, o_side order)) (active_orders wide_fill1)
     = [(''BUY_117.60_1'', BUY)]"
    "realized_pnl wide_fill1 = 0" "total_pnl wide_fill1 = 0"
    by (simp_all add: wide_fill1_def wide_buy2_def)
  from r g u v show ?thesis by simp
qed

subsection \<open>C6\<close>

text \<open>
  C6, evaluated where it fails. With a tick of 1, a step of 0.6 and a maker buffer of
  0.005, the first tick of \<open>demo_cfg\<close> at 120 targets the levels 119.4 and 118.8. Both
  normalise to the level key of 119, while their buffered order prices normalise to 119
  and 118, one whole tick apart, so the second passes the test for a nearby active BUY
  order. After the call two distinct active BUY orders carry the same level key.
\<close>

theorem step_book_two_buys_on_one_level:
  "step_book demo_cfg (init demo_cfg) 120 119 121 =
     Inr (demo_tick1,
          \<lparr>place_orders = [demo_buy1, demo_buy2], cancel_orders = [],
           messages = [PlacedBuyMsg (567 / 100) 119, PlacedBuyMsg (143 / 25) 118]\<rparr>) \<and>
   active_orders demo_tick1 =
     [(''BUY_119.40_0'', demo_buy1), (''BUY_118.80_1'', demo_buy2)] \<and>
   o_side demo_buy1 = BUY \<and> o_side demo_buy2 = BUY \<and>
   o_level_key demo_buy1 = Some ''119.00000000'' \<and>
   o_level_key demo_buy2 = Some ''119.00000000''"
proof -
  have "step_book demo_cfg (init demo_cfg) 120 119 121 =
     Inr (demo_tick1,
          \<lparr>place_orders = [demo_buy1, demo_buy2], cancel_orders = [],
           messages = [PlacedBuyMsg (567 / 100) 119, PlacedBuyMsg (143 / 25) 118]\<rparr>)"
    by code_simp
  then show ?thesis by (simp add: demo_tick1_def demo_buy1_def demo_buy2_def)
qed

subsection \<open>C7\<close>

text \<open>
  C7. Over every sequence of calls that returns, ticks and fills alike, \<open>max_equity\<close> at
  the end is at least \<open>max_equity\<close> at the start. A tick that returns leaves it at the
  larger of its old value and the tick's equity \<open>cash + base_holdings * price\<close>, for
  thresholds that are not negative and a positive watermark (on a paused or stopped tick
  the equity is below the watermark, so skipping the update changes nothing).
\<close>

theorem max_equity_watermark:
  "(run cfg s cs = Inr s' \<longrightarrow> max_equity s \<le> max_equity s') \<and>
   (step_book cfg s p b a = Inr (s1, acts) \<and> 0 \<le> dd_pause_frac cfg \<and>
    0 \<le> kill_switch_frac cfg \<and> 0 < max_equity s \<longrightarrow>
      max_equity s1 = max (max_equity s) (cash s + base_holdings s * p))"
proof (intro conjI impI)
  assume "run cfg s cs = Inr s'"
  then show "max_equity s \<le> max_equity s'" by (rule run_max_equity)
next
  assume h: "step_book cfg s p b a = Inr (s1, acts) \<and> 0 \<le> dd_pause_frac cfg \<and>
    0 \<le> kill_switch_frac cfg \<and> 0 < max_equity s"
  let ?eq = "cash s + base_holdings s * p"
  let ?dd = "(max_equity s - ?eq) / max_equity s"
  from h have pos: "0 < max_equity s" by simp
  have neg: "max_equity s \<le> ?eq \<Longrightarrow> ?dd \<le> 0"
    using pos by (simp add: divide_nonpos_pos)
  from h step_book_max_equity[of cfg s p b a s1 acts]
  have m: "max_equity s1 =
       (if dd_pause_frac cfg < ?dd \<or> kill_switch_frac cfg < ?dd
        then max_equity s else max (max_equity s) ?eq)" by simp
  show "max_equity s1 = max (max_equity s) ?eq"
  proof (cases "dd_pause_frac cfg < ?dd \<or> kill_switch_frac cfg < ?dd")
    case True
    with h have "0 < ?dd" by auto
    with neg have "?eq < max_equity s" by (cases "max_equity s \<le> ?eq") auto
    with m True show ?thesis by simp
  next
    case False
    with m show ?thesis by simp
  qed
qed

theorem max_equity_watermark_witness:
  "run held_cfg (init held_cfg) [Tick 120 119 121, Fill ''BUY_119.40_0'' 119 (247 / 50)]
     = Inr held_fill1 \<and>
   max_equity (init held_cfg) = 1000 \<and> max_equity held_fill1 = 1240 \<and>
   max_equity (init held_cfg) \<le> max_equity held_fill1 \<and>
   0 \<le> dd_pause_frac held_cfg \<and> 0 \<le> kill_switch_frac held_cfg \<and>
   0 < max_equity (init held_cfg) \<and>
   max_equity held_tick1 =
     max (max_equity (init held_cfg))
         (cash (init held_cfg) + base_holdings (init held_cfg) * 120)"
proof -
  have r: "run held_cfg (init held_cfg)
             [Tick 120 119 121, Fill ''BUY_119.40_0'' 119 (247 / 50)] = Inr held_fill1"
    by (simp add: apply_call_def step_held_tick1 fill_held_buy1)
  have c: "0 \<le> dd_pause_frac held_cfg \<and> 0 \<le> kill_switch_frac held_cfg \<and>
           0 < max_equity (init held_cfg)"
    by (simp add: held_cfg_def demo_cfg_def init_def)
  from max_equity_watermark[of held_cfg "init held_cfg"
         "[Tick 120 119 121, Fill ''BUY_119.40_0'' 119 (247 / 50)]" held_fill1
         120 119 121 held_tick1
         "\<lparr>place_orders = [held_buy1, held_buy2], cancel_orders = [],
           messages = [PlacedBuyMsg (247 / 50) 119, PlacedBuyMsg (249 / 50) 118]\<rparr>"]
    r c step_held_tick1
  show ?thesis
    by (simp add: held_cfg_def demo_cfg_def init_def held_tick1_def held_fill1_def)
qed

subsection \<open>C8\<close>

lemma high_low_nth:
  "high_low xs = map (\<lambda>i. \<bar>xs ! (i + 1) - xs ! i\<bar>) [0..<length xs - 1]"
proof (rule nth_equalityI)
  show "length (high_low xs) = length (map (\<lambda>i. \<bar>xs ! (i + 1) - xs ! i\<bar>) [0..<length xs - 1])"
    by (simp add: high_low_def)
next
  fix i
  assume "i < length (high_low xs)"
  then have i: "i < length xs - 1" by (simp add: high_low_def)
  then have "zip (tl xs) (butlast xs) ! i = (xs ! (i + 1), xs ! i)"
    by (simp add: nth_tl nth_butlast)
  with i show "high_low xs ! i = map (\<lambda>i. \<bar>xs ! (i + 1) - xs ! i\<bar>) [0..<length xs - 1] ! i"
    by (simp add: high_low_def)
qed

lemma high_low_empty: "high_low xs = [] \<longleftrightarrow> length xs < 2"
  by (auto simp: high_low_nth)

text \<open>
  C8, as amended. In percent mode the step is \<open>current_price * step_percent\<close>. In ATR
  mode with a window of at least 1 it is \<open>current_price * 0.004\<close> while fewer than
  \<open>window\<close> samples exist; otherwise it is the mean absolute difference of consecutive
  prices among the last \<open>window\<close> samples times \<open>atr_k\<close> when the window is at least 2,
  and \<open>current_price * 0.004 * atr_k\<close> when the window is 1, where the last sample alone
  has no consecutive pair and the specification's mean does not exist.
\<close>

theorem get_grid_step_refines_spec:
  assumes "mode cfg = ''percent'' \<or> 1 \<le> atr_window cfg"
  shows "get_grid_step cfg s p =
           (case spec_compute_step cfg (price_history s) p of
              Some v \<Rightarrow> v
            | None \<Rightarrow> p * (4 / 1000) * atr_k cfg) \<and>
         (spec_compute_step cfg (price_history s) p = None \<longleftrightarrow>
            mode cfg \<noteq> ''percent'' \<and> atr_window cfg = 1 \<and> price_history s \<noteq> [])"
proof (cases "mode cfg = ''percent''")
  case True
  then show ?thesis by (simp add: get_grid_step_def spec_compute_step_def)
next
  case False
  with assms have w: "1 \<le> atr_window cfg" by simp
  show ?thesis
  proof (cases "int (length (price_history s)) < atr_window cfg")
    case True
    with False w show ?thesis
      by (auto simp: get_grid_step_def spec_compute_step_def)
  next
    case enough: False
    let ?recent = "drop (length (price_history s) - nat (atr_window cfg)) (price_history s)"
    from w have suf: "py_suffix (atr_window cfg) (price_history s) = ?recent"
      by (simp add: py_suffix_def)
    from w enough have len: "length ?recent = nat (atr_window cfg)" by simp
    from w enough have ne: "price_history s \<noteq> []" by auto
    show ?thesis
    proof (cases "atr_window cfg = 1")
      case True
      with len have "length ?recent < 2" by simp
      with False enough suf True ne show ?thesis
        by (simp add: get_grid_step_def spec_compute_step_def Let_def high_low_empty)
    next
      case big: False
      with w len have l2: "\<not> length ?recent < 2" by simp
      then have hl: "high_low ?recent \<noteq> []" by (simp add: high_low_empty)
      have "mean (high_low ?recent) =
              sum_list (map (\<lambda>i. \<bar>?recent ! (i + 1) - ?recent ! i\<bar>) [0..<length ?recent - 1])
              / real (length ?recent - 1)"
        unfolding mean_def by (subst (1 2) high_low_nth) simp
      with False enough suf big l2 hl show ?thesis
        by (simp add: get_grid_step_def spec_compute_step_def Let_def)
    qed
  qed
qed

theorem get_grid_step_refines_spec_witness:
  "(mode atr_cfg = ''percent'' \<or> 1 \<le> atr_window atr_cfg) \<and>
   spec_compute_step atr_cfg [90, 100, 102, 101] 100 = Some 3 \<and>
   get_grid_step atr_cfg ((init atr_cfg)\<lparr>price_history := [90, 100, 102, 101]\<rparr>) 100 = 3"
proof -
  have h: "mode atr_cfg = ''percent'' \<or> 1 \<le> atr_window atr_cfg"
    by (simp add: atr_cfg_def)
  have sp: "spec_compute_step atr_cfg [90, 100, 102, 101] 100 = Some 3"
    by code_simp
  from get_grid_step_refines_spec[OF h,
         of "(init atr_cfg)\<lparr>price_history := [90, 100, 102, 101]\<rparr>" 100] sp h
  show ?thesis by simp
qed

text \<open>C8 as written fails for a window of 1: one tick at 100 leaves the history
  \<open>[100]\<close>, the last sample has no consecutive pair to average, and the step is
  \<open>100 * 0.004 * atr_k = 0.8\<close>.\<close>

theorem get_grid_step_window_one_counterexample:
  "get_grid_step atr1_cfg ((init atr1_cfg)\<lparr>price_history := [100]\<rparr>) 100 = 4 / 5 \<and>
   spec_compute_step atr1_cfg
     (price_history ((init atr1_cfg)\<lparr>price_history := [100]\<rparr>)) 100 = None \<and>
   Some (get_grid_step atr1_cfg ((init atr1_cfg)\<lparr>price_history := [100]\<rparr>) 100) \<noteq>
   spec_compute_step atr1_cfg
     (price_history ((init atr1_cfg)\<lparr>price_history := [100]\<rparr>)) 100"
  by code_simp

subsection \<open>C9\<close>

text \<open>
  C9. A fill for an order id that is not a key of the active-order map returns normally,
  with the whole state as it was (cash, base holdings, both profit figures, the order map
  and the position map among it) and the unknown-order line as the only thing printed.
\<close>

theorem on_order_filled_unknown_id:
  assumes "order_id \<notin> fst ` set (active_orders s)"
  shows "on_order_filled cfg s order_id fill_price fill_quantity =
           Inr (s, [UnknownOrderLog order_id])"
proof -
  from assms have "map_of (active_orders s) order_id = None"
    by (simp add: map_of_eq_None_iff)
  then show ?thesis by (simp add: on_order_filled_def)
qed

theorem on_order_filled_unknown_id_witness:
  "''BUY_119.40_7'' \<notin> fst ` set (active_orders held_fill1) \<and>
   on_order_filled held_cfg held_fill1 ''BUY_119.40_7'' 119 (247 / 50) =
     Inr (held_fill1, [UnknownOrderLog ''BUY_119.40_7''])"
proof -
  have h: "''BUY_119.40_7'' \<notin> fst ` set (active_orders held_fill1)"
    by (simp add: held_fill1_def)
  from on_order_filled_unknown_id[OF h] h show ?thesis by simp
qed

subsection \<open>C10\<close>

text \<open>
  C10. \<open>get_status\<close> reports the equity \<open>cash + base_holdings * 45000\<close> and the drawdown
  \<open>(max_equity - equity) / max_equity\<close> of that equity, whatever prices the ticks carried
  (it raises when \<open>max_equity\<close> is 0). A tick at any price leaves the reported equity as
  it was, and two states whose reports differ in equity differ in cash or in base
  holdings.
\<close>

theorem get_status_fixed_price:
  "(max_equity s \<noteq> 0 \<longrightarrow>
      (\<exists>st. get_status cfg s = Inr st \<and>
            st_equity st = cash s + base_holdings s * 45000 \<and>
            st_drawdown st =
              (max_equity s - (cash s + base_holdings s * 45000)) / max_equity s)) \<and>
   (step_book cfg s p b a = Inr (s', acts) \<and> get_status cfg s = Inr st0 \<and>
    get_status cfg s' = Inr st1 \<longrightarrow> st_equity st1 = st_equity st0) \<and>
   (get_status cfg s = Inr st0 \<and> get_status cfg t = Inr st2 \<and>
    st_equity st2 \<noteq> st_equity st0 \<longrightarrow>
      cash t \<noteq> cash s \<or> base_holdings t \<noteq> base_holdings s)"
proof (intro conjI impI)
  assume "max_equity s \<noteq> 0"
  then show "\<exists>st. get_status cfg s = Inr st \<and>
            st_equity st = cash s + base_holdings s * 45000 \<and>
            st_drawdown st =
              (max_equity s - (cash s + base_holdings s * 45000)) / max_equity s"
    by (simp add: get_status_def Let_def)
next
  assume h: "step_book cfg s p b a = Inr (s', acts) \<and> get_status cfg s = Inr st0 \<and>
    get_status cfg s' = Inr st1"
  then have "cash s' = cash s \<and> base_holdings s' = base_holdings s"
    using step_book_frame[of cfg s p b a s' acts] by simp
  with h show "st_equity st1 = st_equity st0"
    by (auto simp: get_status_def Let_def split: if_splits)
next
  assume "get_status cfg s = Inr st0 \<and> get_status cfg t = Inr st2 \<and>
    st_equity st2 \<noteq> st_equity st0"
  then show "cash t \<noteq> cash s \<or> base_holdings t \<noteq> base_holdings s"
    by (auto simp: get_status_def Let_def split: if_splits)
qed

theorem get_status_fixed_price_witness:
  "max_equity (init held_cfg) \<noteq> 0 \<and>
   step_book held_cfg (init held_cfg) 120 119 121 =
     Inr (held_tick1,
          \<lparr>place_orders = [held_buy1, held_buy2], cancel_orders = [],
           messages = [PlacedBuyMsg (247 / 50) 119, PlacedBuyMsg (249 / 50) 118]\<rparr>) \<and>
   (\<exists>st0 st1 st2.
      get_status held_cfg (init held_cfg) = Inr st0 \<and>
      get_status held_cfg held_tick1 = Inr st1 \<and>
      get_status held_cfg held_fill1 = Inr st2 \<and>
      st_equity st0 = 91000 \<and> st_drawdown st0 = - 90 \<and>
      st_equity st1 = st_equity st0 \<and>
      st_equity st2 \<noteq> st_equity st0 \<and>
      cash held_fill1 \<noteq> cash (init held_cfg))"
proof -
  have m: "max_equity (init held_cfg) \<noteq> 0"
    by (simp add: init_def held_cfg_def demo_cfg_def)
  obtain st1 where g1: "get_status held_cfg held_tick1 = Inr st1"
    by (simp add: get_status_def Let_def held_tick1_def)
  obtain st2 where g2: "get_status held_cfg held_fill1 = Inr st2"
    by (simp add: get_status_def Let_def held_fill1_def)
  have e2: "st_equity st2 = 15635607 / 50"
    using g2 by (auto simp: get_status_def Let_def held_fill1_def)
  note inst = get_status_fixed_price[of "init held_cfg" held_cfg 120 119 121 held_tick1
      "\<lparr>place_orders = [held_buy1, held_buy2], cancel_orders = [],
           messages = [PlacedBuyMsg (247 / 50) 119, PlacedBuyMsg (249 / 50) 118]\<rparr>"
      _ st1 held_fill1 st2]
  from inst m obtain st0 where
    g0: "get_status held_cfg (init held_cfg) = Inr st0" and
    e0: "st_equity st0 = cash (init held_cfg) + base_holdings (init held_cfg) * 45000" and
    d0: "st_drawdown st0 =
           (max_equity (init held_cfg)
            - (cash (init held_cfg) + base_holdings (init held_cfg) * 45000))
           / max_equity (init held_cfg)"
    by blast
  have e0': "st_equity st0 = 91000"
    using e0 by (simp add: init_def held_cfg_def demo_cfg_def)
  have d0': "st_drawdown st0 = - 90"
    using d0 by (simp add: init_def held_cfg_def demo_cfg_def)
  from get_status_fixed_price[of "init held_cfg" held_cfg 120 119 121 held_tick1
      "\<lparr>place_orders = [held_buy1, held_buy2], cancel_orders = [],
           messages = [PlacedBuyMsg (247 / 50) 119, PlacedBuyMsg (249 / 50) 118]\<rparr>"
      st0 st1 held_fill1 st2] step_held_tick1 g0 g1 g2
  have e1: "st_equity st1 = st_equity st0" and
       c: "st_equity st2 \<noteq> st_equity st0 \<longrightarrow>
           cash held_fill1 \<noteq> cash (init held_cfg) \<or>
           base_holdings held_fill1 \<noteq> base_holdings (init held_cfg)"
    by simp_all
  have ne: "st_equity st2 \<noteq> st_equity st0" using e2 e0' by simp
  have cn: "cash held_fill1 \<noteq> cash (init held_cfg)"
    by (simp add: held_fill1_def init_def held_cfg_def demo_cfg_def)
  from m step_held_tick1 g0 g1 g2 e0' d0' e1 ne cn show ?thesis by blast
qed

end
